theory Spec2Isabelle
  imports Complex_Main
begin

section \<open>The player of cabbages-and-kings: data model\<close>

text \<open>
  The source is \<^verbatim>\<open>data/components/player.py\<close>. Directions, action states and
  equipment slots are the string constants of the module (the keys of
  \<^verbatim>\<open>DRAW_ORDER\<close>, the values \<^verbatim>\<open>"normal"\<close> and \<^verbatim>\<open>"attack"\<close>, the keys of the
  dictionary built by \<^verbatim>\<open>set_equips\<close>); each is an enumeration here.
\<close>

datatype direction = Front | Back | Left | Right

datatype action = Normal | Attack

datatype slot = Head | Body | Weapon | Armleg | Shield

text \<open>
  Key codes are the integer constants of pygame. The four arrow keys that
  \<^verbatim>\<open>set_controls\<close> binds are named; every other code is \<open>K_other n\<close>.
\<close>

datatype key = K_DOWN | K_UP | K_LEFT | K_RIGHT | K_other int

text \<open>The exceptions the modelled code can raise without catching them.\<close>

datatype py_error = KeyError | IndexError | AttributeError

subsection \<open>Equipped items\<close>

text \<open>
  An item is an object of \<^verbatim>\<open>equips\<close>, read only. Its \<^verbatim>\<open>images\<close> dictionary maps a
  direction name, or \<^verbatim>\<open>"right_with_shield"\<close>, to one surface or to a sequence of
  surfaces. Its \<^verbatim>\<open>attack_images\<close> attribute is the string \<^verbatim>\<open>"normal"\<close>, a
  dictionary of the same shape, or a false value. A dictionary is an
  association list, looked up with \<open>map_of\<close>; the empty one is false in Python.
\<close>

datatype image_key = Dir direction | Right_with_shield

datatype 'surf image_set = Single 'surf | Frames "'surf list"

datatype 'surf attack_images =
    Attack_normal
  | Attack_dict "(image_key \<times> 'surf image_set) list"
  | Attack_none

record 'surf item =
  images :: "(image_key \<times> 'surf image_set) list"
  attack_images :: "'surf attack_images"
  attacking :: bool

text \<open>
  \<^verbatim>\<open>self.equipped\<close> has the five slots as keys; an empty slot holds a false
  value (\<open>None\<close>).
\<close>

type_synonym 'surf equipped = "slot \<Rightarrow> 'surf item option"

subsection \<open>The player object\<close>

text \<open>
  The attributes of \<^verbatim>\<open>Player\<close> that the modelled methods read or write.
  \<^verbatim>\<open>all_animations\<close> is the two-element list indexed by \<^verbatim>\<open>hit_state\<close>, of
  dictionaries keyed by action state, of dictionaries keyed by direction. The
  clips are objects of \<^verbatim>\<open>tools.Anim\<close>, a type parameter here. \<^verbatim>\<open>image\<close> is
  \<open>None\<close> until the first frame is chosen.
\<close>

record ('surf, 'anim, 'img) player =
  exact_position :: "real \<times> real"
  old_position :: "real \<times> real"
  speed :: real
  direction :: direction
  direction_stack :: "direction list"
  controls :: "key \<rightharpoonup> direction"
  equipped :: "'surf equipped"
  all_animations :: "bool \<Rightarrow> action \<Rightarrow> direction \<rightharpoonup> 'anim"
  image_shown :: "'img option"
  action_state :: action
  hit_state :: bool
  redraw :: bool
  health :: int

text \<open>
  The methods of \<^verbatim>\<open>tools.Anim\<close> that the player calls: the \<^verbatim>\<open>done\<close> attribute,
  \<^verbatim>\<open>reset()\<close> and \<^verbatim>\<open>get_next_frame(now)\<close>, which returns a frame and changes
  the clip. They are parameters of the methods that use them.
\<close>

record ('anim, 'img, 'time) anim_ops =
  anim_done :: "'anim \<Rightarrow> bool"
  anim_reset :: "'anim \<Rightarrow> 'anim"
  get_next_frame :: "'anim \<Rightarrow> 'time \<Rightarrow> 'img \<times> 'anim"

section \<open>The player state machine\<close>

definition set_controls :: "key \<rightharpoonup> direction" where
  "set_controls = [K_DOWN \<mapsto> Front, K_UP \<mapsto> Back, K_LEFT \<mapsto> Left, K_RIGHT \<mapsto> Right]"

text \<open>
  \<^verbatim>\<open>Player.__init__\<close>. The equipment comes from the module \<^verbatim>\<open>equips\<close> and
  the table of clips from \<^verbatim>\<open>make_all_animations\<close>; both are arguments here.
\<close>

definition init_player ::
  "real \<times> real \<Rightarrow> real \<Rightarrow> direction \<Rightarrow> 'surf equipped
     \<Rightarrow> (bool \<Rightarrow> action \<Rightarrow> direction \<rightharpoonup> 'anim) \<Rightarrow> ('surf, 'anim, 'img) player" where
  "init_player topleft spd dir eq anims =
     \<lparr>exact_position = topleft, old_position = topleft, speed = spd,
      direction = dir, direction_stack = [], controls = set_controls,
      equipped = eq, all_animations = anims, image_shown = None,
      action_state = Normal, hit_state = False, redraw = True, health = 28\<rparr>"

text \<open>\<^verbatim>\<open>list.remove\<close> deletes the first occurrence, as \<open>remove1\<close> does.\<close>

definition add_direction ::
  "key \<Rightarrow> ('surf, 'anim, 'img) player \<Rightarrow> ('surf, 'anim, 'img) player" where
  "add_direction k p =
     (case controls p k of
        None \<Rightarrow> p
      | Some d \<Rightarrow>
          (let st = (if d \<in> set (direction_stack p)
                     then remove1 d (direction_stack p) else direction_stack p)
           in p\<lparr>direction_stack := st @ [d]\<rparr>))"

definition pop_direction ::
  "key \<Rightarrow> ('surf, 'anim, 'img) player \<Rightarrow> ('surf, 'anim, 'img) player" where
  "pop_direction k p =
     (case controls p k of
        None \<Rightarrow> p
      | Some d \<Rightarrow>
          (if d \<in> set (direction_stack p)
           then p\<lparr>direction_stack := remove1 d (direction_stack p)\<rparr> else p))"

definition got_hit ::
  "int \<Rightarrow> ('surf, 'anim, 'img) player \<Rightarrow> ('surf, 'anim, 'img) player" where
  "got_hit enemy_damage p =
     (if \<not> hit_state p
      then p\<lparr>health := min (health p - enemy_damage) 0, hit_state := True\<rparr>
      else p)"

text \<open>
  \<^verbatim>\<open>check_states\<close>. The weapon is read only when the player is attacking
  (\<^verbatim>\<open>and\<close> is lazy); an empty weapon slot has no \<^verbatim>\<open>attacking\<close> attribute. The
  clip is looked up only in hit state; a direction missing from the table
  raises \<^verbatim>\<open>KeyError\<close>.
\<close>

definition check_states ::
  "('anim, 'img, 'time) anim_ops \<Rightarrow> ('surf, 'anim, 'img) player
     \<Rightarrow> py_error + ('surf, 'anim, 'img) player" where
  "check_states ops p =
     (let attack_now = (action_state p = Attack) in
      case (if attack_now
            then (case equipped p Weapon of
                    None \<Rightarrow> Inl AttributeError
                  | Some w \<Rightarrow>
                      Inr (if \<not> attacking w
                           then p\<lparr>action_state := Normal, redraw := True\<rparr> else p))
            else Inr p) of
        Inl e \<Rightarrow> Inl e
      | Inr p1 \<Rightarrow>
          (if hit_state p1
           then (case all_animations p1 (hit_state p1) (action_state p1) (direction p1) of
                   None \<Rightarrow> Inl KeyError
                 | Some animation \<Rightarrow>
                     (let p2 = (if anim_done ops animation
                                then p1\<lparr>all_animations :=
                                          (all_animations p1)
                                            (hit_state p1 :=
                                               (all_animations p1 (hit_state p1))
                                                 (action_state p1 :=
                                                    (all_animations p1 (hit_state p1)
                                                       (action_state p1))
                                                      (direction p1 \<mapsto>
                                                         anim_reset ops animation))),
                                        hit_state := False\<rparr>
                                else p1)
                      in Inr (p2\<lparr>redraw := True\<rparr>)))
           else Inr p1))"

text \<open>
  \<^verbatim>\<open>adjust_frames\<close>. The clip is looked up on every call, whether or not a
  frame is then taken from it.
\<close>

definition adjust_frames ::
  "('anim, 'img, 'time) anim_ops \<Rightarrow> 'time \<Rightarrow> ('surf, 'anim, 'img) player
     \<Rightarrow> py_error + ('surf, 'anim, 'img) player" where
  "adjust_frames ops now p =
     (let p1 = (if direction_stack p \<noteq> []
                then p\<lparr>direction := last (direction_stack p)\<rparr> else p);
          animation_dict = all_animations p1 (hit_state p1)
      in case animation_dict (action_state p1) (direction p1) of
           None \<Rightarrow> Inl KeyError
         | Some animation \<Rightarrow>
             (let p2 = (if direction_stack p1 \<noteq> [] \<or> hit_state p1 \<or> redraw p1
                        then (let (frame, animation') = get_next_frame ops animation now
                              in p1\<lparr>all_animations :=
                                      (all_animations p1)
                                        (hit_state p1 :=
                                           (all_animations p1 (hit_state p1))
                                             (action_state p1 :=
                                                (all_animations p1 (hit_state p1)
                                                   (action_state p1))
                                                  (direction p1 \<mapsto> animation'))),
                                    image_shown := Some frame\<rparr>)
                        else p1)
              in Inr (p2\<lparr>redraw := False\<rparr>)))"

text \<open>Key events, to speak of sequences of presses and releases.\<close>

datatype key_event = Press key | Release key

fun key_step ::
  "('surf, 'anim, 'img) player \<Rightarrow> key_event \<Rightarrow> ('surf, 'anim, 'img) player" where
  "key_step p (Press k) = add_direction k p"
| "key_step p (Release k) = pop_direction k p"

definition key_run ::
  "key_event list \<Rightarrow> ('surf, 'anim, 'img) player \<Rightarrow> ('surf, 'anim, 'img) player" where
  "key_run es p = foldl key_step p es"

section \<open>Surfaces, pygame and the animation clip\<close>

text \<open>
  pygame is an external library. A surface is a value of a type parameter, and
  the calls the module makes on surfaces are the fields of a record of
  functions: \<^verbatim>\<open>pg.Surface(size)\<close>, \<^verbatim>\<open>convert()\<close>, \<^verbatim>\<open>convert(8)\<close>,
  \<^verbatim>\<open>set_colorkey\<close>, \<^verbatim>\<open>fill\<close>, \<^verbatim>\<open>blit(source, (0,0))\<close> (source first, then the
  surface painted on), \<^verbatim>\<open>get_palette\<close> and \<^verbatim>\<open>set_palette\<close>. A method that
  changes its surface returns the changed surface here.
\<close>

type_synonym rgb = "nat \<times> nat \<times> nat"

datatype color = Color nat nat nat nat

text \<open>
  \<^verbatim>\<open>color[index]\<close> on a pygame colour: 0 is red, 1 green, 2 blue, 3 alpha. The
  module only uses the indices 0 and 2.
\<close>

fun channel :: "color \<Rightarrow> nat \<Rightarrow> nat" where
  "channel (Color r g b a) i =
     (if i = 0 then r else if i = 1 then g else if i = 2 then b else a)"

fun set_channel :: "color \<Rightarrow> nat \<Rightarrow> nat \<Rightarrow> color" where
  "set_channel (Color r g b a) i v =
     (if i = 0 then Color v g b a else if i = 1 then Color r v b a
      else if i = 2 then Color r g v a else Color r g b v)"

record 'surf pygame =
  pg_Surface :: "nat \<times> nat \<Rightarrow> 'surf"
  pg_convert :: "'surf \<Rightarrow> 'surf"
  pg_convert_depth :: "nat \<Rightarrow> 'surf \<Rightarrow> 'surf"
  pg_set_colorkey :: "rgb \<Rightarrow> 'surf \<Rightarrow> 'surf"
  pg_fill :: "rgb \<Rightarrow> 'surf \<Rightarrow> 'surf"
  pg_blit :: "'surf \<Rightarrow> 'surf \<Rightarrow> 'surf"
  pg_get_palette :: "'surf \<Rightarrow> color list"
  pg_set_palette :: "color list \<Rightarrow> 'surf \<Rightarrow> 'surf"

text \<open>The constants of the module \<^verbatim>\<open>prepare\<close> that the code reads.\<close>

record prepare =
  CELL_SIZE :: "nat \<times> nat"
  COLOR_KEY :: rgb
  DIRECTIONS :: "direction list"

text \<open>
  Modelled from the spec: the class \<^verbatim>\<open>tools.Anim\<close> is not among the sources.
  Section 3 of the specification gives a clip an ordered sequence of frames, a
  playback rate in frames per second, a loop count that is finite or unbounded,
  a current frame index and a done flag; \<open>done\<close> becomes true only for a
  finite-loop clip once its loop budget is exhausted and stays true until the
  clip is reset, which rewinds to frame 0 and restores the loop counter. The
  timing of \<^verbatim>\<open>get_next_frame\<close> is not specified and is not modelled: the
  end of one repetition of the frame sequence is the event \<open>loop_completed\<close>.
  \<open>loops = None\<close> is the constructor called without a \<^verbatim>\<open>loops\<close> argument,
  which section 4.2 calls non-finite looping.
\<close>

record 'f anim =
  frames :: "'f list"
  fps :: real
  loops :: "nat option"
  frame_index :: nat
  loop_count :: nat
  is_done :: bool

definition Anim :: "'f list \<Rightarrow> real \<Rightarrow> nat option \<Rightarrow> 'f anim" where
  "Anim fs rate budget =
     \<lparr>frames = fs, fps = rate, loops = budget, frame_index = 0, loop_count = 0,
      is_done = False\<rparr>"

definition loop_completed :: "'f anim \<Rightarrow> 'f anim" where
  "loop_completed a =
     (if is_done a then a
      else (let n = loop_count a + 1
            in a\<lparr>loop_count := n,
                 is_done := (case loops a of None \<Rightarrow> False | Some k \<Rightarrow> k \<le> n)\<rparr>))"

definition reset :: "'f anim \<Rightarrow> 'f anim" where
  "reset a = a\<lparr>frame_index := 0, loop_count := 0, is_done := False\<rparr>"

section \<open>Image processing\<close>

definition STANDARD_ANIMATION_FPS :: real where
  "STANDARD_ANIMATION_FPS = 7"

definition HIT_ANIMATION_FPS :: real where
  "HIT_ANIMATION_FPS = 20"

fun DRAW_ORDER :: "direction \<Rightarrow> slot list" where
  "DRAW_ORDER Front = [Body, Head, Weapon, Armleg, Shield]"
| "DRAW_ORDER Back = [Shield, Armleg, Weapon, Body, Head]"
| "DRAW_ORDER Left = [Shield, Body, Head, Weapon, Armleg]"
| "DRAW_ORDER Right = [Weapon, Body, Head, Armleg, Shield]"

fun DRAW_ATTACK_ORDER :: "direction \<Rightarrow> slot list" where
  "DRAW_ATTACK_ORDER Front = [Shield, Body, Head, Weapon, Armleg]"
| "DRAW_ATTACK_ORDER Back = [Armleg, Weapon, Body, Head, Shield]"
| "DRAW_ATTACK_ORDER Left = [Shield, Body, Head, Weapon, Armleg]"
| "DRAW_ATTACK_ORDER Right = [Weapon, Body, Head, Armleg, Shield]"

text \<open>A dictionary lookup \<^verbatim>\<open>d[k]\<close>, which raises \<^verbatim>\<open>KeyError\<close> on a missing key.\<close>

definition lookup :: "('k \<times> 'v) list \<Rightarrow> 'k \<Rightarrow> py_error + 'v" where
  "lookup d k = (case map_of d k of None \<Rightarrow> Inl KeyError | Some v \<Rightarrow> Inr v)"

text \<open>
  The block \<^verbatim>\<open>try: return to_blit[frame]\<close> / \<^verbatim>\<open>except TypeError: return to_blit\<close>
  that ends both part lookups. A surface cannot be subscripted, which is the
  \<^verbatim>\<open>TypeError\<close> caught; a sequence is indexed as Python does (a negative index
  counts from the end), and an index out of range raises \<^verbatim>\<open>IndexError\<close>, which
  is not caught.
\<close>

definition subscript :: "'surf image_set \<Rightarrow> int \<Rightarrow> py_error + 'surf" where
  "subscript to_blit frame =
     (case to_blit of
        Single s \<Rightarrow> Inr s
      | Frames xs \<Rightarrow>
          (if 0 \<le> frame \<and> frame < int (length xs) then Inr (xs ! nat frame)
           else if - int (length xs) \<le> frame \<and> frame < 0
           then Inr (xs ! nat (int (length xs) + frame))
           else Inl IndexError))"

definition get_part_image ::
  "'surf equipped \<Rightarrow> direction \<Rightarrow> slot \<Rightarrow> int \<Rightarrow> py_error + 'surf" where
  "get_part_image eq dir part frame =
     (case eq part of
        None \<Rightarrow> Inl AttributeError
      | Some it \<Rightarrow>
          (case (if part = Armleg \<and> dir = Right \<and> eq Shield \<noteq> None
                 then lookup (images it) Right_with_shield
                 else lookup (images it) (Dir dir)) of
             Inl e \<Rightarrow> Inl e
           | Inr to_blit \<Rightarrow> subscript to_blit frame))"

text \<open>
  \<^verbatim>\<open>get_attack_part_image\<close> returns \<open>None\<close> for an item whose \<^verbatim>\<open>attack_images\<close>
  is false; an empty dictionary is false too.
\<close>

definition get_attack_part_image ::
  "'surf equipped \<Rightarrow> direction \<Rightarrow> slot \<Rightarrow> int \<Rightarrow> py_error + 'surf option" where
  "get_attack_part_image eq dir part frame =
     (case eq part of
        None \<Rightarrow> Inl AttributeError
      | Some it \<Rightarrow>
          (case (case attack_images it of
                   Attack_normal \<Rightarrow> Some (images it)
                 | Attack_dict d \<Rightarrow> (if d \<noteq> [] then Some d else None)
                 | Attack_none \<Rightarrow> None) of
             None \<Rightarrow> Inr None
           | Some piece \<Rightarrow>
               (case lookup piece (Dir dir) of
                  Inl e \<Rightarrow> Inl e
                | Inr to_blit \<Rightarrow>
                    (case subscript to_blit frame of
                       Inl e \<Rightarrow> Inl e
                     | Inr s \<Rightarrow> Inr (Some s)))))"

text \<open>
  The innermost loop of \<^verbatim>\<open>make_images\<close>: the parts of one frame, painted in
  the given order on the copy of the base surface. An empty slot is skipped,
  and so is a part for which the lookup returns \<open>None\<close>.
\<close>

fun blit_parts ::
  "'surf pygame \<Rightarrow> 'surf equipped \<Rightarrow> bool \<Rightarrow> direction \<Rightarrow> int \<Rightarrow> slot list \<Rightarrow> 'surf
     \<Rightarrow> py_error + 'surf" where
  "blit_parts pg eq attack dir frame [] img = Inr img"
| "blit_parts pg eq attack dir frame (part # parts) img =
     (if eq part \<noteq> None
      then (case (if attack then get_attack_part_image eq dir part frame
                  else map_sum id Some (get_part_image eq dir part frame)) of
              Inl e \<Rightarrow> Inl e
            | Inr None \<Rightarrow> blit_parts pg eq attack dir frame parts img
            | Inr (Some blitting) \<Rightarrow>
                blit_parts pg eq attack dir frame parts (pg_blit pg blitting img))
      else blit_parts pg eq attack dir frame parts img)"

text \<open>
  The loop over the directions, with the two frames of each written out. Each
  frame starts from \<^verbatim>\<open>base.copy()\<close>, which is the value \<open>base\<close> itself here.
\<close>

fun make_directions ::
  "'surf pygame \<Rightarrow> 'surf equipped \<Rightarrow> bool \<Rightarrow> (direction \<Rightarrow> slot list) \<Rightarrow> 'surf
     \<Rightarrow> direction list \<Rightarrow> (direction \<rightharpoonup> 'surf anim)
     \<Rightarrow> py_error + (direction \<rightharpoonup> 'surf anim)" where
  "make_directions pg eq attack order base [] anims = Inr anims"
| "make_directions pg eq attack order base (dir # dirs) anims =
     (case blit_parts pg eq attack dir 0 (order dir) base of
        Inl e \<Rightarrow> Inl e
      | Inr frame0 \<Rightarrow>
          (case blit_parts pg eq attack dir 1 (order dir) base of
             Inl e \<Rightarrow> Inl e
           | Inr frame1 \<Rightarrow>
               make_directions pg eq attack order base dirs
                 (anims(dir \<mapsto> Anim [frame0, frame1] STANDARD_ANIMATION_FPS None))))"

definition make_images ::
  "'surf pygame \<Rightarrow> prepare \<Rightarrow> 'surf equipped \<Rightarrow> bool \<Rightarrow> (direction \<Rightarrow> slot list)
     \<Rightarrow> py_error + (direction \<rightharpoonup> 'surf anim)" where
  "make_images pg prep eq attack order =
     (let base = pg_convert pg (pg_Surface pg (CELL_SIZE prep));
          base = pg_set_colorkey pg (COLOR_KEY prep) base;
          base = pg_fill pg (COLOR_KEY prep) base
      in make_directions pg eq attack order base (DIRECTIONS prep) Map.empty)"

text \<open>
  The line \<^verbatim>\<open>index, colorkey = (0, (235,0,85)) if i else (2, (85,0,235))\<close>: the
  first pair for every \<open>i\<close> that is not zero.
\<close>

definition hit_index_colorkey :: "nat \<Rightarrow> nat \<times> rgb" where
  "hit_index_colorkey i = (if i \<noteq> 0 then (0, (235, 0, 85)) else (2, (85, 0, 235)))"

text \<open>
  Following the words of the specification (section 4.3), to compare with the
  index that \<open>hit_index_colorkey\<close> chooses: the red channel, index 0, for even
  frame indices and the blue channel, index 2, for odd ones.
\<close>

definition spec_hit_index :: "nat \<Rightarrow> nat" where
  "spec_hit_index i = (if even i then 0 else 2)"

text \<open>The surface that \<^verbatim>\<open>make_hit_images\<close> takes the palette of.\<close>

definition palette_reduced :: "'surf pygame \<Rightarrow> prepare \<Rightarrow> 'surf \<Rightarrow> 'surf" where
  "palette_reduced pg prep frame =
     (let img = pg_Surface pg (CELL_SIZE prep);
          img = pg_fill pg (85, 0, 85) img;
          img = pg_blit pg frame img
      in pg_convert_depth pg 8 img)"

text \<open>The body of the loop over the palette: \<^verbatim>\<open>color[index] = min(color[index]+150, 255)\<close>.\<close>

definition boost :: "nat \<Rightarrow> color \<Rightarrow> color" where
  "boost index color = set_channel color index (min (channel color index + 150) 255)"

text \<open>The body of the loop over \<^verbatim>\<open>enumerate(from_dict[direction].frames)\<close>.\<close>

definition make_hit_frame :: "'surf pygame \<Rightarrow> prepare \<Rightarrow> nat \<Rightarrow> 'surf \<Rightarrow> 'surf" where
  "make_hit_frame pg prep i frame =
     (let img = palette_reduced pg prep frame;
          palette = pg_get_palette pg img;
          (index, colorkey) = hit_index_colorkey i;
          palette = map (boost index) palette;
          img = pg_set_palette pg palette img
      in pg_set_colorkey pg colorkey img)"

definition make_hit_images ::
  "'surf pygame \<Rightarrow> prepare \<Rightarrow> (direction \<rightharpoonup> 'surf anim) \<Rightarrow> (direction \<rightharpoonup> 'surf anim)" where
  "make_hit_images pg prep from_dict =
     (\<lambda>dir. case from_dict dir of
               None \<Rightarrow> None
             | Some clip \<Rightarrow>
                 Some (Anim (map (\<lambda>(i, frame). make_hit_frame pg prep i frame)
                               (enumerate 0 (frames clip)))
                         HIT_ANIMATION_FPS (Some 10)))"

text \<open>
  \<^verbatim>\<open>make_all_animations\<close>: the list of the standard and the strobing
  dictionaries is the function of the index, \<open>False\<close> for 0 and \<open>True\<close> for 1.
\<close>

definition make_all_animations ::
  "'surf pygame \<Rightarrow> prepare \<Rightarrow> 'surf equipped
     \<Rightarrow> py_error + (bool \<Rightarrow> action \<Rightarrow> direction \<rightharpoonup> 'surf anim)" where
  "make_all_animations pg prep eq =
     (case make_images pg prep eq False DRAW_ORDER of
        Inl e \<Rightarrow> Inl e
      | Inr normal \<Rightarrow>
          (case make_images pg prep eq True DRAW_ATTACK_ORDER of
             Inl e \<Rightarrow> Inl e
           | Inr attack \<Rightarrow>
               (let standard = (\<lambda>a. case a of Normal \<Rightarrow> normal | Attack \<Rightarrow> attack);
                    strobing = (\<lambda>a. case a of
                                      Normal \<Rightarrow> make_hit_images pg prep (standard Normal)
                                    | Attack \<Rightarrow> make_hit_images pg prep (standard Attack))
                in Inr (\<lambda>hit. if hit then strobing else standard))))"

section \<open>Concrete inputs\<close>

text \<open>
  Small values on which the definitions are evaluated. A clip of the example
  player is only its done flag, a frame is a number, and the clock is a number
  that \<open>get_next_frame\<close> returns as the frame.
\<close>

definition example_ops :: "(bool, nat, nat) anim_ops" where
  "example_ops =
     \<lparr>anim_done = (\<lambda>a. a), anim_reset = (\<lambda>a. False),
      get_next_frame = (\<lambda>a now. (now, a))\<rparr>"

definition example_weapon :: "nat item" where
  "example_weapon = \<lparr>images = [], attack_images = Attack_none, attacking = False\<rparr>"

definition example_player :: "(nat, bool, nat) player" where
  "example_player =
     init_player (0, 0) 3 Back (\<lambda>s. if s = Weapon then Some example_weapon else None)
       (\<lambda>h a d. Some False)"

definition example_attacker :: "(nat, bool, nat) player" where
  "example_attacker = example_player\<lparr>action_state := Attack, redraw := False\<rparr>"

definition example_idle :: "(nat, bool, nat) player" where
  "example_idle = example_player\<lparr>image_shown := Some 7, redraw := False\<rparr>"

text \<open>
  Equipment whose surfaces are numbers. The arms and legs reuse their normal
  images when attacking, the body has attack images of its own, the weapon has
  none, and the shield has one image for each direction.
\<close>

definition example_armleg :: "nat item" where
  "example_armleg =
     \<lparr>images = [(Dir Front, Frames [10, 11]), (Dir Back, Frames [12, 13]),
                (Dir Left, Frames [14, 15]), (Dir Right, Frames [16, 17]),
                (Right_with_shield, Frames [18, 19])],
      attack_images = Attack_normal, attacking = False\<rparr>"

definition example_body :: "nat item" where
  "example_body =
     \<lparr>images = [(Dir Front, Frames [20, 21]), (Dir Back, Frames [22, 23]),
                (Dir Left, Frames [24, 25]), (Dir Right, Frames [26, 27])],
      attack_images = Attack_dict [(Dir Front, Single 28), (Dir Back, Single 29),
                                   (Dir Left, Frames [30, 31]), (Dir Right, Frames [32, 33])],
      attacking = False\<rparr>"

definition example_shield :: "nat item" where
  "example_shield =
     \<lparr>images = [(Dir Front, Single 40), (Dir Back, Single 41),
                (Dir Left, Single 42), (Dir Right, Single 43)],
      attack_images = Attack_normal, attacking = False\<rparr>"

definition example_pitchfork :: "nat item" where
  "example_pitchfork =
     \<lparr>images = [(Dir Front, Single 50), (Dir Back, Single 51),
                (Dir Left, Single 52), (Dir Right, Single 53)],
      attack_images = Attack_none, attacking = False\<rparr>"

definition example_equipped :: "nat equipped" where
  "example_equipped part =
     (case part of
        Head \<Rightarrow> None
      | Body \<Rightarrow> Some example_body
      | Weapon \<Rightarrow> Some example_pitchfork
      | Armleg \<Rightarrow> Some example_armleg
      | Shield \<Rightarrow> Some example_shield)"

text \<open>
  A stand-in for pygame on which the image pipeline can be evaluated. A surface
  is two pixels, a palette and a colour key. Filling writes every pixel;
  blitting copies the pixels of the source that are not its colour key;
  \<open>convert(8)\<close> takes the colours of the pixels as the palette.
\<close>

record example_surface =
  ex_pixels :: "rgb list"
  ex_palette :: "color list"
  ex_colorkey :: "rgb option"

definition example_pygame :: "example_surface pygame" where
  "example_pygame =
     \<lparr>pg_Surface = (\<lambda>size. \<lparr>ex_pixels = [(0, 0, 0), (0, 0, 0)], ex_palette = [],
                                ex_colorkey = None\<rparr>),
      pg_convert = (\<lambda>s. s),
      pg_convert_depth = (\<lambda>depth s.
         s\<lparr>ex_palette := map (\<lambda>(r, g, b). Color r g b 255) (remdups (ex_pixels s))\<rparr>),
      pg_set_colorkey = (\<lambda>c s. s\<lparr>ex_colorkey := Some c\<rparr>),
      pg_fill = (\<lambda>c s. s\<lparr>ex_pixels := map (\<lambda>p. c) (ex_pixels s)\<rparr>),
      pg_blit = (\<lambda>source s.
         s\<lparr>ex_pixels := map2 (\<lambda>p q. if Some p = ex_colorkey source then q else p)
                           (ex_pixels source) (ex_pixels s)\<rparr>),
      pg_get_palette = ex_palette,
      pg_set_palette = (\<lambda>pal s. s\<lparr>ex_palette := pal\<rparr>)\<rparr>"

definition example_prepare :: prepare where
  "example_prepare =
     \<lparr>CELL_SIZE = (50, 50), COLOR_KEY = (255, 0, 255),
      DIRECTIONS = [Front, Back, Left, Right]\<rparr>"

definition swatch :: "nat \<Rightarrow> example_surface" where
  "swatch n = \<lparr>ex_pixels = [(n, n, n), (255, 0, 255)], ex_palette = [],
               ex_colorkey = Some (255, 0, 255)\<rparr>"

definition paint_item :: "nat item \<Rightarrow> example_surface item" where
  "paint_item it =
     \<lparr>images = map (\<lambda>(k, s). (k, map_image_set swatch s)) (images it),
      attack_images = map_attack_images swatch (attack_images it),
      attacking = attacking it\<rparr>"

definition example_sprites :: "example_surface equipped" where
  "example_sprites part = map_option paint_item (example_equipped part)"

definition example_idle_frame :: example_surface where
  "example_idle_frame =
     \<lparr>ex_pixels = [(255, 0, 255), (10, 20, 30)], ex_palette = [],
      ex_colorkey = Some (255, 0, 255)\<rparr>"

definition example_action_frame :: example_surface where
  "example_action_frame =
     \<lparr>ex_pixels = [(200, 120, 40), (255, 0, 255)], ex_palette = [],
      ex_colorkey = Some (255, 0, 255)\<rparr>"

definition example_clip :: "example_surface anim" where
  "example_clip = Anim [example_idle_frame, example_action_frame] STANDARD_ANIMATION_FPS None"

text \<open>The two frames that \<open>make_hit_images\<close> makes of \<open>example_clip\<close>.\<close>

definition example_hit_idle :: example_surface where
  "example_hit_idle =
     \<lparr>ex_pixels = [(85, 0, 85), (10, 20, 30)],
      ex_palette = [Color 85 0 235 255, Color 10 20 180 255],
      ex_colorkey = Some (85, 0, 235)\<rparr>"

definition example_hit_action :: example_surface where
  "example_hit_action =
     \<lparr>ex_pixels = [(200, 120, 40), (85, 0, 85)],
      ex_palette = [Color 255 120 40 255, Color 235 0 85 255],
      ex_colorkey = Some (235, 0, 85)\<rparr>"

section \<open>Properties of the player state machine\<close>

subsection \<open>Damage\<close>

text \<open>
  C1. For every damage amount \<open>d\<close>: \<open>got_hit d\<close> on a player that is not in hit
  state sets the health to \<open>min (health - d) 0\<close> and sets the hit state, and
  changes nothing else; on a player already in hit state it changes nothing.
\<close>

theorem got_hit_once:
  "(\<not> hit_state p \<longrightarrow>
      got_hit d p = p\<lparr>health := min (health p - d) 0, hit_state := True\<rparr>
      \<and> health (got_hit d p) = min (health p - d) 0
      \<and> hit_state (got_hit d p))
   \<and> (hit_state p \<longrightarrow>
        got_hit d p = p
        \<and> health (got_hit d p) = health p \<and> hit_state (got_hit d p) = hit_state p)"
  by (simp add: got_hit_def)

text \<open>
  The scenario of the specification: health 28, damage 5, delivered twice. The
  first hit leaves health \<open>min 23 0 = 0\<close>; the second changes nothing.
\<close>

theorem got_hit_once_witness:
  "\<not> hit_state example_player \<and> health example_player = 28
   \<and> health (got_hit 5 example_player) = 0
   \<and> hit_state (got_hit 5 example_player)
   \<and> got_hit 5 (got_hit 5 example_player) = got_hit 5 example_player"
  using got_hit_once [of example_player 5] got_hit_once [of "got_hit 5 example_player" 5]
  by (simp add: example_player_def init_player_def)

subsection \<open>The direction stack\<close>

lemma set_controls_simps:
  "set_controls K_DOWN = Some Front" "set_controls K_UP = Some Back"
  "set_controls K_LEFT = Some Left" "set_controls K_RIGHT = Some Right"
  "set_controls (K_other n) = None"
  by (simp_all add: set_controls_def)

lemma set_controls_inj:
  "set_controls a = Some d \<Longrightarrow> set_controls b = Some d \<Longrightarrow> a = b"
  by (cases a; cases b) (simp_all add: set_controls_def)

lemma set_controls_unbound:
  "k \<notin> {K_DOWN, K_UP, K_LEFT, K_RIGHT} \<Longrightarrow> set_controls k = None"
  by (cases k) (simp_all add: set_controls_def)

lemma add_direction_stack:
  "controls p k = Some d \<Longrightarrow>
     add_direction k p = p\<lparr>direction_stack := remove1 d (direction_stack p) @ [d]\<rparr>"
  by (simp add: add_direction_def remove1_idem)

lemma pop_direction_stack:
  "controls p k = Some d \<Longrightarrow>
     pop_direction k p = p\<lparr>direction_stack := remove1 d (direction_stack p)\<rparr>"
  by (simp add: pop_direction_def remove1_idem)

lemma add_direction_controls: "controls (add_direction k p) = controls p"
  by (simp add: add_direction_def Let_def split: option.splits)

lemma pop_direction_controls: "controls (pop_direction k p) = controls p"
  by (simp add: pop_direction_def split: option.splits)

lemma add_direction_distinct:
  "distinct (direction_stack p) \<Longrightarrow> distinct (direction_stack (add_direction k p))"
  by (cases "controls p k") (simp_all add: add_direction_def add_direction_stack)

lemma pop_direction_distinct:
  "distinct (direction_stack p) \<Longrightarrow> distinct (direction_stack (pop_direction k p))"
  by (cases "controls p k") (simp_all add: pop_direction_def pop_direction_stack)

lemma key_step_invariant:
  "distinct (direction_stack p) \<and> controls p = c \<Longrightarrow>
     distinct (direction_stack (key_step p e)) \<and> controls (key_step p e) = c"
  by (cases e)
    (simp_all add: add_direction_distinct pop_direction_distinct
       add_direction_controls pop_direction_controls)

text \<open>
  No sequence of presses and releases puts a direction on the stack twice, and
  none changes the bindings.
\<close>

lemma key_run_invariant:
  "distinct (direction_stack p) \<and> controls p = c \<Longrightarrow>
     distinct (direction_stack (key_run es p)) \<and> controls (key_run es p) = c"
  unfolding key_run_def
proof (induction es arbitrary: p)
  case Nil
  then show ?case by simp
next
  case (Cons e es)
  from Cons.prems
  have "distinct (direction_stack (key_step p e)) \<and> controls (key_step p e) = c"
    by (rule key_step_invariant)
  then show ?case using Cons.IH by simp
qed

lemma press_press_press:
  assumes c: "controls q = set_controls"
    and a: "set_controls a = Some da" and b: "set_controls b = Some db" and ne: "da \<noteq> db"
  shows "last (direction_stack (key_run [Press a, Press b, Press a] q)) = da"
    and "distinct (direction_stack q) \<Longrightarrow>
           last (direction_stack (key_run [Press a, Press b, Press a, Release a] q)) = db"
proof -
  let ?q1 = "add_direction a q"
  let ?q2 = "add_direction b ?q1"
  let ?q3 = "add_direction a ?q2"
  have c1: "controls ?q1 = set_controls" and c2: "controls ?q2 = set_controls"
    and c3: "controls ?q3 = set_controls"
    using c by (simp_all add: add_direction_controls)
  have s3: "direction_stack ?q3 = remove1 da (direction_stack ?q2) @ [da]"
    using c2 a by (simp add: add_direction_stack)
  show "last (direction_stack (key_run [Press a, Press b, Press a] q)) = da"
    using s3 by (simp add: key_run_def)
  assume d: "distinct (direction_stack q)"
  have s2: "direction_stack ?q2 = remove1 db (direction_stack ?q1) @ [db]"
    using c1 b by (simp add: add_direction_stack)
  have d1: "distinct (direction_stack ?q1)" using d by (rule add_direction_distinct)
  have d2: "distinct (direction_stack ?q2)" using d1 by (rule add_direction_distinct)
  have "da \<notin> set (remove1 da (direction_stack ?q2))" using d2 by simp
  then have "direction_stack (pop_direction a ?q3) = remove1 da (direction_stack ?q2)"
    using c3 a s3 by (simp add: pop_direction_stack remove1_append)
  also have "\<dots> = remove1 da (remove1 db (direction_stack ?q1)) @ [db]"
    using s2 ne d1 by (simp add: remove1_append remove1_idem)
  finally show "last (direction_stack (key_run [Press a, Press b, Press a, Release a] q)) = db"
    by (simp add: key_run_def)
qed

text \<open>
  C4. Let \<open>q\<close> be the player after any sequence \<open>es\<close> of presses and releases,
  starting with an empty stack and the bindings of \<open>set_controls\<close>. The stack of
  \<open>q\<close> has no duplicates. For a bound key \<open>k\<close> with direction \<open>d\<close>, pressing \<open>k\<close>
  removes every occurrence of \<open>d\<close> and appends \<open>d\<close>, so \<open>d\<close> is last and the stack
  still has no duplicates; releasing \<open>k\<close> removes \<open>d\<close>, and changes nothing when
  \<open>d\<close> is absent. For two different bound keys \<open>a\<close> and \<open>b\<close>, pressing \<open>a\<close>, \<open>b\<close>,
  \<open>a\<close> leaves the direction of \<open>a\<close> on top, and releasing \<open>a\<close> then leaves the
  direction of \<open>b\<close> on top.
\<close>

theorem direction_stack_rollover:
  assumes init: "direction_stack p0 = []" "controls p0 = set_controls"
    and q: "q = key_run es p0"
    and k: "set_controls k = Some d"
    and ab: "set_controls a = Some da" "set_controls b = Some db" "a \<noteq> b"
  shows "distinct (direction_stack q)
     \<and> add_direction k q = q\<lparr>direction_stack := removeAll d (direction_stack q) @ [d]\<rparr>
     \<and> distinct (direction_stack (add_direction k q))
     \<and> last (direction_stack (add_direction k q)) = d
     \<and> pop_direction k q = q\<lparr>direction_stack := removeAll d (direction_stack q)\<rparr>
     \<and> (d \<notin> set (direction_stack q) \<longrightarrow> pop_direction k q = q)
     \<and> last (direction_stack (key_run [Press a, Press b, Press a] q)) = da
     \<and> last (direction_stack (key_run [Press a, Press b, Press a, Release a] q)) = db"
proof -
  have inv: "distinct (direction_stack q) \<and> controls q = set_controls"
    unfolding q by (rule key_run_invariant) (simp add: init)
  then have dq: "distinct (direction_stack q)" and cq: "controls q = set_controls"
    by simp_all
  have kq: "controls q k = Some d" using cq k by simp
  have r: "remove1 d (direction_stack q) = removeAll d (direction_stack q)"
    using dq by (rule distinct_remove1_removeAll)
  have ne: "da \<noteq> db" using ab set_controls_inj by blast
  have 1: "add_direction k q = q\<lparr>direction_stack := removeAll d (direction_stack q) @ [d]\<rparr>"
    using add_direction_stack [OF kq] r by simp
  have 2: "distinct (direction_stack (add_direction k q))"
    using dq by (rule add_direction_distinct)
  have 3: "last (direction_stack (add_direction k q)) = d"
    using 1 by simp
  have 4: "pop_direction k q = q\<lparr>direction_stack := removeAll d (direction_stack q)\<rparr>"
    using pop_direction_stack [OF kq] r by simp
  have 5: "d \<notin> set (direction_stack q) \<longrightarrow> pop_direction k q = q"
    using kq by (simp add: pop_direction_def)
  have 6: "last (direction_stack (key_run [Press a, Press b, Press a] q)) = da"
    using cq ab(1,2) ne by (rule press_press_press(1))
  have 7: "last (direction_stack (key_run [Press a, Press b, Press a, Release a] q)) = db"
    using cq ab(1,2) ne dq by (rule press_press_press(2))
  from dq 1 2 3 4 5 6 7 show ?thesis by blast
qed

text \<open>
  The scenario of the specification: up, right, release up leaves only the
  direction of the right key; from there up, right, up puts \<open>Back\<close> on top and
  releasing up puts \<open>Right\<close> on top.
\<close>

theorem direction_stack_rollover_witness:
  "direction_stack example_player = [] \<and> controls example_player = set_controls
   \<and> set_controls K_LEFT = Some Left
   \<and> set_controls K_UP = Some Back \<and> set_controls K_RIGHT = Some Right \<and> K_UP \<noteq> K_RIGHT
   \<and> direction_stack (key_run [Press K_UP, Press K_RIGHT, Release K_UP] example_player) = [Right]
   \<and> last (direction_stack (key_run [Press K_UP, Press K_RIGHT, Press K_UP]
        (key_run [Press K_UP, Press K_RIGHT, Release K_UP] example_player))) = Back
   \<and> last (direction_stack (key_run [Press K_UP, Press K_RIGHT, Press K_UP, Release K_UP]
        (key_run [Press K_UP, Press K_RIGHT, Release K_UP] example_player))) = Right"
proof -
  have h1: "direction_stack example_player = []"
    and h2: "controls example_player = set_controls"
    by (simp_all add: example_player_def init_player_def)
  have h3: "set_controls K_LEFT = Some Left" and h4: "set_controls K_UP = Some Back"
    and h5: "set_controls K_RIGHT = Some Right" and h6: "K_UP \<noteq> K_RIGHT"
    by (simp_all add: set_controls_simps)
  have e: "direction_stack (key_run [Press K_UP, Press K_RIGHT, Release K_UP] example_player)
             = [Right]"
    by (simp add: key_run_def add_direction_def pop_direction_def h1 h2 set_controls_simps)
  from direction_stack_rollover [OF h1 h2 refl h3 h4 h5 h6,
      of "[Press K_UP, Press K_RIGHT, Release K_UP]"]
  show ?thesis using h1 h2 h3 h4 h5 h6 e by simp
qed

text \<open>
  C10. For every key code that is not one of the four bound keys, neither
  \<open>add_direction\<close> nor \<open>pop_direction\<close> changes any part of the player.
\<close>

theorem unbound_key_ignored:
  assumes "controls p = set_controls" and "k \<notin> {K_DOWN, K_UP, K_LEFT, K_RIGHT}"
  shows "add_direction k p = p \<and> pop_direction k p = p"
  using assms set_controls_unbound [of k]
  by (simp add: add_direction_def pop_direction_def)

theorem unbound_key_ignored_witness:
  "controls example_player = set_controls
   \<and> K_other 32 \<notin> {K_DOWN, K_UP, K_LEFT, K_RIGHT}
   \<and> add_direction (K_other 32) example_player = example_player
   \<and> pop_direction (K_other 32) example_player = example_player"
  using unbound_key_ignored [of example_player "K_other 32"]
  by (simp add: example_player_def init_player_def)

subsection \<open>State resolution and frame selection\<close>

text \<open>
  C5. For every player whose action state is attack and whose equipped weapon
  is not attacking, \<open>check_states\<close> sets the action state to normal and the
  redraw flag to true. Outside hit state nothing else changes. In hit state the
  hit-flash clip for the normal action and the current direction is read, and
  the call returns if the table has that clip; if the table has no such clip the
  lookup raises \<open>KeyError\<close>.
\<close>

theorem check_states_attack_over:
  assumes "action_state p = Attack"
    and "equipped p Weapon = Some w" and "\<not> attacking w"
  shows "(\<not> hit_state p \<longrightarrow>
            check_states ops p = Inr (p\<lparr>action_state := Normal, redraw := True\<rparr>))
       \<and> ((hit_state p \<longrightarrow> all_animations p True Normal (direction p) \<noteq> None) \<longrightarrow>
            (\<exists>p'. check_states ops p = Inr p' \<and> action_state p' = Normal \<and> redraw p'))
       \<and> (hit_state p \<and> all_animations p True Normal (direction p) = None \<longrightarrow>
            check_states ops p = Inl KeyError)"
  using assms by (auto simp add: check_states_def Let_def)

theorem check_states_attack_over_witness:
  "action_state example_attacker = Attack
   \<and> equipped example_attacker Weapon = Some example_weapon \<and> \<not> attacking example_weapon
   \<and> \<not> redraw example_attacker
   \<and> (\<exists>p'. check_states example_ops example_attacker = Inr p'
          \<and> action_state p' = Normal \<and> redraw p')
   \<and> (\<exists>p'. check_states example_ops (example_attacker\<lparr>hit_state := True\<rparr>) = Inr p'
          \<and> action_state p' = Normal \<and> redraw p')"
proof -
  have h1: "action_state example_attacker = Attack"
    and h2: "equipped example_attacker Weapon = Some example_weapon"
    and h3: "\<not> attacking example_weapon"
    and h4: "\<not> redraw example_attacker"
    and h5: "all_animations example_attacker True Normal (direction example_attacker) \<noteq> None"
    by (simp_all add: example_attacker_def example_player_def init_player_def
        example_weapon_def)
  from check_states_attack_over [OF h1 h2 h3, of example_ops]
    check_states_attack_over [of "example_attacker\<lparr>hit_state := True\<rparr>"
      example_weapon example_ops]
  show ?thesis using h1 h2 h3 h4 h5 by simp
qed

lemma adjust_frames_refresh:
  assumes "d' = (if direction_stack p \<noteq> [] then last (direction_stack p) else direction p)"
    and "all_animations p (hit_state p) (action_state p) d' = Some clip"
    and "direction_stack p \<noteq> [] \<or> hit_state p \<or> redraw p"
  shows "adjust_frames ops now p =
           Inr (p\<lparr>direction := d',
                  all_animations :=
                    (all_animations p)
                      (hit_state p :=
                         (all_animations p (hit_state p))
                           (action_state p :=
                              (all_animations p (hit_state p) (action_state p))
                                (d' \<mapsto> snd (get_next_frame ops clip now)))),
                  image_shown := Some (fst (get_next_frame ops clip now)),
                  redraw := False\<rparr>)"
  using assms by (cases "direction_stack p = []")
    (simp_all add: adjust_frames_def Let_def split_beta)

lemma adjust_frames_idle:
  assumes "d' = (if direction_stack p \<noteq> [] then last (direction_stack p) else direction p)"
    and "all_animations p (hit_state p) (action_state p) d' = Some clip"
    and "\<not> (direction_stack p \<noteq> [] \<or> hit_state p \<or> redraw p)"
  shows "adjust_frames ops now p = Inr (p\<lparr>direction := d', redraw := False\<rparr>)"
  using assms by (simp add: adjust_frames_def Let_def)

text \<open>
  C6. Let \<open>d'\<close> be the direction after direction selection (the top of the
  stack, or the old direction when the stack is empty) and let the table hold
  \<open>clip\<close> for the hit state, the action state and \<open>d'\<close>. Then \<open>adjust_frames\<close>
  returns, with the redraw flag false. If the stack is not empty, or the player
  is in hit state, or the redraw flag was set, the clip is queried at \<open>now\<close>:
  the frame it returns becomes the displayed image, the advanced clip takes its
  place in the table and no other clip changes. Otherwise the displayed image
  and the whole table are as before. Apart from the table and the image, only
  the direction and the redraw flag are written.
\<close>

theorem adjust_frames_redraw:
  assumes d': "d' = (if direction_stack p \<noteq> [] then last (direction_stack p) else direction p)"
    and clip: "all_animations p (hit_state p) (action_state p) d' = Some clip"
  shows "\<exists>p'. adjust_frames ops now p = Inr p'
       \<and> redraw p' = False \<and> direction p' = d'
       \<and> (if direction_stack p \<noteq> [] \<or> hit_state p \<or> redraw p
          then image_shown p' = Some (fst (get_next_frame ops clip now))
             \<and> all_animations p' (hit_state p) (action_state p) d'
                 = Some (snd (get_next_frame ops clip now))
             \<and> (\<forall>h a d. (h, a, d) \<noteq> (hit_state p, action_state p, d') \<longrightarrow>
                   all_animations p' h a d = all_animations p h a d)
          else image_shown p' = image_shown p \<and> all_animations p' = all_animations p)
       \<and> p'\<lparr>all_animations := all_animations p, image_shown := image_shown p\<rparr>
           = p\<lparr>direction := d', redraw := False\<rparr>"
proof (cases "direction_stack p \<noteq> [] \<or> hit_state p \<or> redraw p")
  case True
  show ?thesis
    unfolding adjust_frames_refresh [OF d' clip True] using True by auto
next
  case False
  show ?thesis
    unfolding adjust_frames_idle [OF d' clip False] using False by simp
qed

text \<open>
  A new player has the redraw flag set, so the first call shows the frame of
  time 40; an idle player that shows frame 7 keeps it.
\<close>

theorem adjust_frames_redraw_witness:
  "all_animations example_player (hit_state example_player) (action_state example_player)
       (if direction_stack example_player \<noteq> [] then last (direction_stack example_player)
        else direction example_player) = Some False
   \<and> (\<exists>p'. adjust_frames example_ops 40 example_player = Inr p'
          \<and> \<not> redraw p' \<and> image_shown p' = Some 40)
   \<and> (\<exists>p'. adjust_frames example_ops 40 example_idle = Inr p'
          \<and> \<not> redraw p' \<and> image_shown p' = Some 7)"
proof -
  have h: "all_animations example_player (hit_state example_player)
       (action_state example_player)
       (if direction_stack example_player \<noteq> [] then last (direction_stack example_player)
        else direction example_player) = Some False"
    by (simp add: example_player_def init_player_def)
  have h': "all_animations example_idle (hit_state example_idle)
       (action_state example_idle)
       (if direction_stack example_idle \<noteq> [] then last (direction_stack example_idle)
        else direction example_idle) = Some False"
    by (simp add: example_idle_def example_player_def init_player_def)
  have e: "direction_stack example_player = []" "\<not> hit_state example_player"
    "redraw example_player" "direction_stack example_idle = []" "\<not> hit_state example_idle"
    "\<not> redraw example_idle" "image_shown example_idle = Some 7"
    by (simp_all add: example_idle_def example_player_def init_player_def)
  from adjust_frames_redraw [OF refl h, of example_ops 40]
    adjust_frames_redraw [OF refl h', of example_ops 40]
  show ?thesis using h e by (auto simp add: example_ops_def)
qed

section \<open>Properties of the image processing\<close>

subsection \<open>Part lookup\<close>

lemma subscript_Single: "subscript (Single s) frame = Inr s"
  by (simp add: subscript_def)

lemma subscript_pair:
  "frame = 0 \<or> frame = 1 \<Longrightarrow> subscript (Frames [a, b]) frame = Inr (if frame = 0 then a else b)"
  by (auto simp add: subscript_def)

lemma lookup_Some: "map_of d k = Some v \<Longrightarrow> lookup d k = Inr v"
  by (simp add: lookup_def)

text \<open>
  C7. For every equipped item, direction and frame index, the attack-mode
  lookup returns: under the marker \<^verbatim>\<open>"normal"\<close>, the entry of the item's normal
  images for the direction, subscripted by the frame as in normal mode; for an
  attack dictionary of its own, the entry of that dictionary, subscripted the
  same way; and \<open>None\<close>, without raising, for an item with no attack images.
  Under the marker the result is that of the normal-mode lookup, except for the
  arms and legs facing right with a shield equipped.
\<close>

theorem attack_part_resolution:
  assumes "eq part = Some it"
  shows "(attack_images it = Attack_normal \<longrightarrow>
            get_attack_part_image eq dir part frame =
              (case lookup (images it) (Dir dir) of
                 Inl e \<Rightarrow> Inl e
               | Inr to_blit \<Rightarrow> map_sum id Some (subscript to_blit frame)))
       \<and> (\<forall>d. attack_images it = Attack_dict d \<and> d \<noteq> [] \<longrightarrow>
            get_attack_part_image eq dir part frame =
              (case lookup d (Dir dir) of
                 Inl e \<Rightarrow> Inl e
               | Inr to_blit \<Rightarrow> map_sum id Some (subscript to_blit frame)))
       \<and> (attack_images it = Attack_none \<or> attack_images it = Attack_dict [] \<longrightarrow>
            get_attack_part_image eq dir part frame = Inr None)
       \<and> (attack_images it = Attack_normal
            \<and> \<not> (part = Armleg \<and> dir = Right \<and> eq Shield \<noteq> None) \<longrightarrow>
            get_attack_part_image eq dir part frame =
              map_sum id Some (get_part_image eq dir part frame))"
  using assms
  by (auto simp add: get_attack_part_image_def get_part_image_def
      split: sum.splits)

text \<open>
  The arms under the marker, the body with attack images of its own (a pair
  facing left, a single image facing front) and the weapon without any.
\<close>

theorem attack_part_resolution_witness:
  "example_equipped Armleg = Some example_armleg
   \<and> example_equipped Body = Some example_body
   \<and> example_equipped Weapon = Some example_pitchfork
   \<and> get_attack_part_image example_equipped Left Armleg 1 = Inr (Some 15)
   \<and> get_attack_part_image example_equipped Left Body 1 = Inr (Some 31)
   \<and> get_attack_part_image example_equipped Front Body 1 = Inr (Some 28)
   \<and> get_attack_part_image example_equipped Left Weapon 1 = Inr None"
proof -
  have h: "example_equipped Armleg = Some example_armleg"
    "example_equipped Body = Some example_body"
    "example_equipped Weapon = Some example_pitchfork"
    by (simp_all add: example_equipped_def)
  from attack_part_resolution
      [where eq = example_equipped and part = Armleg and it = example_armleg
         and dir = Left and frame = 1]
    attack_part_resolution
      [where eq = example_equipped and part = Body and it = example_body
         and dir = Left and frame = 1]
    attack_part_resolution
      [where eq = example_equipped and part = Body and it = example_body
         and dir = Front and frame = 1]
    attack_part_resolution
      [where eq = example_equipped and part = Weapon and it = example_pitchfork
         and dir = Left and frame = 1]
  show ?thesis using h
    by (simp add: example_armleg_def example_body_def example_pitchfork_def
        lookup_def subscript_def)
qed

text \<open>
  C8. For every slot, direction and frame index 0 or 1: when the image set
  that the lookup resolves is a pair, the lookup returns the element at the
  frame index; when it is a single image, the lookup returns that image for
  both frame indices, indeed for every frame index, and does not fail. In
  normal mode the set is the entry of \<^verbatim>\<open>images\<close> under \<open>key\<close>, for every
  equipped item whatever its attack images are. In attack mode it is the entry
  under the direction of the dictionary \<open>piece\<close> that the item's attack images
  select.
\<close>

theorem single_or_pair_indexing:
  assumes "eq part = Some it" and "frame = 0 \<or> frame = 1"
    and "key = (if part = Armleg \<and> dir = Right \<and> eq Shield \<noteq> None
                then Right_with_shield else Dir dir)"
  shows "(map_of (images it) key = Some (Frames [a, b]) \<longrightarrow>
            get_part_image eq dir part frame = Inr (if frame = 0 then a else b))
       \<and> (map_of (images it) key = Some (Single s) \<longrightarrow>
            get_part_image eq dir part 0 = Inr s \<and> get_part_image eq dir part 1 = Inr s
            \<and> (\<forall>f. get_part_image eq dir part f = Inr s))
       \<and> (\<forall>piece. (attack_images it = Attack_normal \<and> piece = images it)
                    \<or> (attack_images it = Attack_dict piece \<and> piece \<noteq> []) \<longrightarrow>
            (map_of piece (Dir dir) = Some (Frames [a, b]) \<longrightarrow>
               get_attack_part_image eq dir part frame
                 = Inr (Some (if frame = 0 then a else b)))
          \<and> (map_of piece (Dir dir) = Some (Single s) \<longrightarrow>
               get_attack_part_image eq dir part 0 = Inr (Some s)
               \<and> get_attack_part_image eq dir part 1 = Inr (Some s)
               \<and> (\<forall>f. get_attack_part_image eq dir part f = Inr (Some s))))"
  using assms
  by (auto simp add: get_attack_part_image_def get_part_image_def lookup_Some
      subscript_Single subscript_pair)

text \<open>
  The arms with a shield (a pair under \<^verbatim>\<open>"right_with_shield"\<close>), the shield and
  the weapon (single images; the weapon has no attack images), and the body in
  both modes.
\<close>

theorem single_or_pair_indexing_witness:
  "example_equipped Armleg = Some example_armleg
   \<and> example_equipped Shield = Some example_shield
   \<and> example_equipped Body = Some example_body
   \<and> example_equipped Weapon = Some example_pitchfork
   \<and> attack_images example_pitchfork = Attack_none
   \<and> get_part_image example_equipped Right Armleg 0 = Inr 18
   \<and> get_part_image example_equipped Right Armleg 1 = Inr 19
   \<and> get_attack_part_image example_equipped Left Armleg 1 = Inr (Some 15)
   \<and> get_part_image example_equipped Back Shield 0 = Inr 41
   \<and> get_part_image example_equipped Back Shield 1 = Inr 41
   \<and> get_part_image example_equipped Back Weapon 0 = Inr 51
   \<and> get_part_image example_equipped Back Weapon 1 = Inr 51
   \<and> get_part_image example_equipped Left Body 0 = Inr 24
   \<and> get_part_image example_equipped Left Body 1 = Inr 25
   \<and> get_attack_part_image example_equipped Back Body 0 = Inr (Some 29)
   \<and> get_attack_part_image example_equipped Back Body 1 = Inr (Some 29)"
proof -
  have h: "example_equipped Armleg = Some example_armleg"
    "example_equipped Shield = Some example_shield"
    "example_equipped Body = Some example_body"
    "example_equipped Weapon = Some example_pitchfork"
    "attack_images example_pitchfork = Attack_none"
    by (simp_all add: example_equipped_def example_pitchfork_def)
  note arm0 = single_or_pair_indexing
      [where eq = example_equipped and part = Armleg and it = example_armleg
         and dir = Right and frame = 0 and key = Right_with_shield and a = 18 and b = 19]
  note arm1 = single_or_pair_indexing
      [where eq = example_equipped and part = Armleg and it = example_armleg
         and dir = Right and frame = 1 and key = Right_with_shield and a = 18 and b = 19]
  note armL = single_or_pair_indexing
      [where eq = example_equipped and part = Armleg and it = example_armleg
         and dir = Left and frame = 1 and key = "Dir Left" and a = 14 and b = 15]
  note shield = single_or_pair_indexing
      [where eq = example_equipped and part = Shield and it = example_shield
         and dir = Back and frame = 0 and key = "Dir Back" and s = 41]
  note weapon = single_or_pair_indexing
      [where eq = example_equipped and part = Weapon and it = example_pitchfork
         and dir = Back and frame = 0 and key = "Dir Back" and s = 51]
  note body0 = single_or_pair_indexing
      [where eq = example_equipped and part = Body and it = example_body
         and dir = Left and frame = 0 and key = "Dir Left" and a = 24 and b = 25]
  note body1 = single_or_pair_indexing
      [where eq = example_equipped and part = Body and it = example_body
         and dir = Left and frame = 1 and key = "Dir Left" and a = 24 and b = 25]
  note bodyA = single_or_pair_indexing
      [where eq = example_equipped and part = Body and it = example_body
         and dir = Back and frame = 0 and key = "Dir Back" and s = 29]
  have 1: "get_part_image example_equipped Right Armleg 0 = Inr 18"
    using arm0 h by (simp add: example_armleg_def)
  have 2: "get_part_image example_equipped Right Armleg 1 = Inr 19"
    using arm1 h by (simp add: example_armleg_def)
  have 3: "get_attack_part_image example_equipped Left Armleg 1 = Inr (Some 15)"
    using armL h by (simp add: example_armleg_def)
  have 4: "get_part_image example_equipped Back Shield 0 = Inr 41
      \<and> get_part_image example_equipped Back Shield 1 = Inr 41"
    using shield h by (simp add: example_shield_def)
  have 5: "get_part_image example_equipped Back Weapon 0 = Inr 51
      \<and> get_part_image example_equipped Back Weapon 1 = Inr 51"
    using weapon h by (simp add: example_pitchfork_def)
  have 6: "get_part_image example_equipped Left Body 0 = Inr 24"
    using body0 h by (simp add: example_body_def)
  have 7: "get_part_image example_equipped Left Body 1 = Inr 25"
    using body1 h by (simp add: example_body_def)
  have 8: "get_attack_part_image example_equipped Back Body 0 = Inr (Some 29)
      \<and> get_attack_part_image example_equipped Back Body 1 = Inr (Some 29)"
    using bodyA h by (simp add: example_body_def)
  from h 1 2 3 4 5 6 7 8 show ?thesis by simp
qed

text \<open>The attack-mode lookup of a part never reads the shield slot.\<close>

lemma attack_lookup_ignores_shield:
  "part \<noteq> Shield \<Longrightarrow>
   get_attack_part_image (eq(Shield := s)) dir part frame =
     get_attack_part_image eq dir part frame"
  by (simp add: get_attack_part_image_def)

text \<open>
  C3 asks for the substitution of \<^verbatim>\<open>"right_with_shield"\<close> in the normal-mode and
  in the attack-mode composition. The code makes it in \<open>get_part_image\<close> only.
  With a shield equipped, facing right, for arms and legs that reuse their
  normal images when attacking (the marker \<^verbatim>\<open>"normal"\<close>), the normal-mode lookup
  reads the entry \<^verbatim>\<open>"right_with_shield"\<close> of the item's images and the
  attack-mode lookup reads the entry \<^verbatim>\<open>"right"\<close> of the same images.
\<close>

theorem shield_override_attack_divergence:
  assumes "eq Shield \<noteq> None" and "eq Armleg = Some it"
    and "attack_images it = Attack_normal"
  shows "get_part_image eq Right Armleg frame =
           (case lookup (images it) Right_with_shield of
              Inl e \<Rightarrow> Inl e
            | Inr to_blit \<Rightarrow> subscript to_blit frame)
       \<and> get_attack_part_image eq Right Armleg frame =
           (case lookup (images it) (Dir Right) of
              Inl e \<Rightarrow> Inl e
            | Inr to_blit \<Rightarrow> map_sum id Some (subscript to_blit frame))"
  using assms
  by (auto simp add: get_attack_part_image_def get_part_image_def split: sum.splits)

text \<open>
  The example arms: normal mode shows the images 18 and 19, attack mode the
  images 16 and 17.
\<close>

theorem shield_override_attack_divergence_witness:
  "example_equipped Shield \<noteq> None \<and> example_equipped Armleg = Some example_armleg
   \<and> attack_images example_armleg = Attack_normal
   \<and> lookup (images example_armleg) Right_with_shield = Inr (Frames [18, 19])
   \<and> lookup (images example_armleg) (Dir Right) = Inr (Frames [16, 17])
   \<and> get_part_image example_equipped Right Armleg 0 = Inr 18
   \<and> get_attack_part_image example_equipped Right Armleg 0 = Inr (Some 16)
   \<and> get_part_image example_equipped Right Armleg 1 = Inr 19
   \<and> get_attack_part_image example_equipped Right Armleg 1 = Inr (Some 17)
   \<and> get_attack_part_image example_equipped Right Armleg 0 \<noteq> Inr (Some 18)"
proof -
  have h: "example_equipped Shield \<noteq> None" "example_equipped Armleg = Some example_armleg"
    "attack_images example_armleg = Attack_normal"
    by (simp_all add: example_equipped_def example_armleg_def)
  have l: "lookup (images example_armleg) Right_with_shield = Inr (Frames [18, 19])"
    "lookup (images example_armleg) (Dir Right) = Inr (Frames [16, 17])"
    by (simp_all add: example_armleg_def lookup_def)
  note t0 = shield_override_attack_divergence
      [where eq = example_equipped and it = example_armleg and frame = 0, OF h]
  note t1 = shield_override_attack_divergence
      [where eq = example_equipped and it = example_armleg and frame = 1, OF h]
  have 0: "get_part_image example_equipped Right Armleg 0 = Inr 18"
    "get_attack_part_image example_equipped Right Armleg 0 = Inr (Some 16)"
    using t0 by (simp_all add: l subscript_def)
  have 1: "get_part_image example_equipped Right Armleg 1 = Inr 19"
    "get_attack_part_image example_equipped Right Armleg 1 = Inr (Some 17)"
    using t1 by (simp_all add: l subscript_def)
  from h l 0 1 show ?thesis by simp
qed

subsection \<open>Hit-flash frames\<close>

lemma boost_red: "boost 0 (Color r g b a) = Color (min (r + 150) 255) g b a"
  by (simp add: boost_def)

lemma boost_blue: "boost 2 (Color r g b a) = Color r g (min (b + 150) 255) a"
  by (simp add: boost_def)

lemma make_hit_frame_first:
  "make_hit_frame pg prep 0 frame =
     pg_set_colorkey pg (85, 0, 235)
       (pg_set_palette pg
          (map (boost 2) (pg_get_palette pg (palette_reduced pg prep frame)))
          (palette_reduced pg prep frame))"
  by (simp add: make_hit_frame_def hit_index_colorkey_def Let_def)

lemma make_hit_frame_later:
  "i \<noteq> 0 \<Longrightarrow>
   make_hit_frame pg prep i frame =
     pg_set_colorkey pg (235, 0, 85)
       (pg_set_palette pg
          (map (boost 0) (pg_get_palette pg (palette_reduced pg prep frame)))
          (palette_reduced pg prep frame))"
  by (simp add: make_hit_frame_def hit_index_colorkey_def Let_def)

lemma make_hit_images_Some:
  "from_dict dir = Some clip \<Longrightarrow>
   make_hit_images pg prep from_dict dir =
     Some (Anim (map (\<lambda>(i, frame). make_hit_frame pg prep i frame)
                   (enumerate 0 (frames clip)))
             HIT_ANIMATION_FPS (Some 10))"
  by (simp add: make_hit_images_def)

lemma make_hit_images_frames:
  assumes "from_dict dir = Some clip" and "make_hit_images pg prep from_dict dir = Some hit"
  shows "length (frames hit) = length (frames clip)"
    and "i < length (frames clip) \<Longrightarrow>
           frames hit ! i = make_hit_frame pg prep i (frames clip ! i)"
  using assms by (auto simp add: make_hit_images_def Anim_def nth_enumerate_eq)

lemma example_reduced:
  "palette_reduced example_pygame example_prepare example_idle_frame =
     \<lparr>ex_pixels = [(85, 0, 85), (10, 20, 30)],
      ex_palette = [Color 85 0 85 255, Color 10 20 30 255], ex_colorkey = None\<rparr>"
  "palette_reduced example_pygame example_prepare example_action_frame =
     \<lparr>ex_pixels = [(200, 120, 40), (85, 0, 85)],
      ex_palette = [Color 200 120 40 255, Color 85 0 85 255], ex_colorkey = None\<rparr>"
  by (simp_all add: palette_reduced_def example_pygame_def example_prepare_def
      example_idle_frame_def example_action_frame_def)

lemma example_pygame_palette:
  "pg_get_palette example_pygame s = ex_palette s"
  "pg_set_palette example_pygame pal s = s\<lparr>ex_palette := pal\<rparr>"
  "pg_set_colorkey example_pygame c s = s\<lparr>ex_colorkey := Some c\<rparr>"
  by (simp_all add: example_pygame_def)

lemma example_hit_frame_0:
  "make_hit_frame example_pygame example_prepare 0 example_idle_frame = example_hit_idle"
  by (simp add: make_hit_frame_first example_reduced example_pygame_palette boost_blue
      example_hit_idle_def)

lemma example_hit_frame_1:
  "make_hit_frame example_pygame example_prepare (Suc 0) example_action_frame
     = example_hit_action"
  by (simp add: make_hit_frame_later example_reduced example_pygame_palette boost_red
      example_hit_action_def)

text \<open>
  C2 as stated fails at frame 0, an even index: the palette of the frame made
  from the idle frame has its blue channel raised, where raising the red
  channel, as the specification has it for an even index, gives another
  palette.
\<close>

theorem hit_frames_tint_counterexample:
  "spec_hit_index 0 = 0 \<and> fst (hit_index_colorkey 0) = 2
   \<and> make_hit_images example_pygame example_prepare [Front \<mapsto> example_clip] Front
       = Some (Anim [example_hit_idle, example_hit_action] HIT_ANIMATION_FPS (Some 10))
   \<and> pg_get_palette example_pygame example_hit_idle
       = [Color 85 0 235 255, Color 10 20 180 255]
   \<and> map (boost (spec_hit_index 0))
        (pg_get_palette example_pygame
           (palette_reduced example_pygame example_prepare example_idle_frame))
       = [Color 235 0 85 255, Color 160 20 30 255]
   \<and> pg_get_palette example_pygame example_hit_idle
       \<noteq> map (boost (spec_hit_index 0))
           (pg_get_palette example_pygame
              (palette_reduced example_pygame example_prepare example_idle_frame))"
  by (simp add: spec_hit_index_def hit_index_colorkey_def make_hit_images_def
      example_clip_def Anim_def enumerate_eq_zip example_hit_frame_0 example_hit_frame_1 example_reduced
      example_pygame_palette boost_red example_hit_idle_def)

text \<open>
  C2, amended. For every clip in the dictionary given to \<open>make_hit_images\<close>
  and every frame index \<open>i\<close> of the clip, frame \<open>i\<close> of the clip made is the
  palette-reduced input frame whose palette entries each have one channel
  raised by 150 and clamped to 255: the blue channel when \<open>i\<close> is 0 and the red
  channel for every other \<open>i\<close>; the colour key of the frame is set to the
  raised background colour. For the two frames of a composited clip that is
  blue for frame 0 and red for frame 1.
\<close>

theorem hit_frames_tint:
  assumes "from_dict dir = Some clip" and "i < length (frames clip)"
  shows "\<exists>hit. make_hit_images pg prep from_dict dir = Some hit
       \<and> length (frames hit) = length (frames clip)
       \<and> frames hit ! i =
           pg_set_colorkey pg (if i = 0 then (85, 0, 235) else (235, 0, 85))
             (pg_set_palette pg
                (map (boost (if i = 0 then 2 else 0))
                   (pg_get_palette pg (palette_reduced pg prep (frames clip ! i))))
                (palette_reduced pg prep (frames clip ! i)))
       \<and> (\<forall>r g b a. boost 0 (Color r g b a) = Color (min (r + 150) 255) g b a
                   \<and> boost 2 (Color r g b a) = Color r g (min (b + 150) 255) a)"
proof -
  obtain hit where hit: "make_hit_images pg prep from_dict dir = Some hit"
    using assms(1) by (simp add: make_hit_images_def)
  have len: "length (frames hit) = length (frames clip)"
    using assms(1) hit by (rule make_hit_images_frames(1))
  have nth: "frames hit ! i = make_hit_frame pg prep i (frames clip ! i)"
    using assms(1) hit assms(2) by (rule make_hit_images_frames(2))
  show ?thesis
  proof (cases "i = 0")
    case True
    then show ?thesis using hit len nth
      by (simp add: make_hit_frame_first boost_red boost_blue)
  next
    case False
    then show ?thesis using hit len nth
      by (simp add: make_hit_frame_later boost_red boost_blue)
  qed
qed

theorem hit_frames_tint_witness:
  "[Front \<mapsto> example_clip] Front = Some example_clip
   \<and> 0 < length (frames example_clip) \<and> 1 < length (frames example_clip)
   \<and> (\<exists>hit. make_hit_images example_pygame example_prepare [Front \<mapsto> example_clip] Front
                = Some hit
          \<and> frames hit ! 0 = example_hit_idle \<and> frames hit ! 1 = example_hit_action)"
proof -
  have h: "[Front \<mapsto> example_clip] Front = Some example_clip"
    "0 < length (frames example_clip)" "1 < length (frames example_clip)"
    "frames example_clip ! 0 = example_idle_frame"
    "frames example_clip ! Suc 0 = example_action_frame"
    by (simp_all add: example_clip_def Anim_def)
  note t0 = hit_frames_tint
      [where pg = example_pygame and prep = example_prepare
         and from_dict = "[Front \<mapsto> example_clip]" and dir = Front
         and clip = example_clip and i = 0, OF h(1) h(2)]
  note t1 = hit_frames_tint
      [where pg = example_pygame and prep = example_prepare
         and from_dict = "[Front \<mapsto> example_clip]" and dir = Front
         and clip = example_clip and i = 1, OF h(1) h(3)]
  from t0 obtain hit where
    hit: "make_hit_images example_pygame example_prepare [Front \<mapsto> example_clip] Front
            = Some hit"
    and f0: "frames hit ! 0 = example_hit_idle"
    by (auto simp add: h example_reduced example_pygame_palette boost_red boost_blue
        example_hit_idle_def)
  from t1 hit have f1: "frames hit ! 1 = example_hit_action"
    by (auto simp add: h example_reduced example_pygame_palette boost_red boost_blue
        example_hit_action_def)
  from h hit f0 f1 show ?thesis by blast
qed

subsection \<open>Rates and loop budgets\<close>

lemma loop_completed_finite:
  assumes "loops a = Some k" and "0 < k" and "loop_count a = 0" and "\<not> is_done a"
  shows "loops ((loop_completed ^^ n) a) = Some k
       \<and> loop_count ((loop_completed ^^ n) a) = min n k
       \<and> (is_done ((loop_completed ^^ n) a) \<longleftrightarrow> k \<le> n)"
proof (induction n)
  case 0
  then show ?case using assms by simp
next
  case (Suc n)
  then show ?case by (auto simp add: loop_completed_def Let_def)
qed

lemma loop_completed_unbounded:
  assumes "loops a = None" and "\<not> is_done a"
  shows "loops ((loop_completed ^^ n) a) = None \<and> \<not> is_done ((loop_completed ^^ n) a)"
proof (induction n)
  case 0
  then show ?case using assms by simp
next
  case (Suc n)
  then show ?case by (simp add: loop_completed_def Let_def)
qed

lemma loop_completed_keeps:
  "loops ((loop_completed ^^ n) a) = loops a \<and> fps ((loop_completed ^^ n) a) = fps a"
  by (induction n) (simp_all add: loop_completed_def Let_def)

lemma reset_fields:
  "loops (reset a) = loops a" "loop_count (reset a) = 0" "\<not> is_done (reset a)"
  "frame_index (reset a) = 0" "fps (reset a) = fps a" "frames (reset a) = frames a"
  by (simp_all add: reset_def)

lemma make_directions_clips:
  "make_directions pg eq attack order base dirs anims = Inr result \<Longrightarrow>
   result d = Some clip \<Longrightarrow>
   anims d = Some clip \<or> (\<exists>f0 f1. clip = Anim [f0, f1] STANDARD_ANIMATION_FPS None)"
proof (induction dirs arbitrary: anims)
  case Nil
  then show ?case by simp
next
  case (Cons dir dirs)
  from Cons.prems(1) obtain f0 f1 where
    rest: "make_directions pg eq attack order base dirs
             (anims(dir \<mapsto> Anim [f0, f1] STANDARD_ANIMATION_FPS None)) = Inr result"
    by (auto split: sum.splits)
  from Cons.IH [OF rest Cons.prems(2)] show ?case
    by (auto split: if_splits)
qed

lemma make_images_clips:
  assumes "make_images pg prep eq attack order = Inr standard" and "standard d = Some clip"
  shows "\<exists>f0 f1. clip = Anim [f0, f1] STANDARD_ANIMATION_FPS None"
  using assms make_directions_clips [where anims = Map.empty and d = d and clip = clip]
  by (fastforce simp add: make_images_def Let_def)

text \<open>
  C9. Every clip that \<open>make_hit_images\<close> makes, for every direction, is
  constructed with 20 frames per second and a loop budget of 10: it is done
  exactly from the tenth completed repetition on, stays done, and after a reset
  has its ten repetitions again. Every clip that \<open>make_images\<close> makes is
  constructed with 7 frames per second, which is slower, and without a loop
  budget: it is never done.
\<close>

theorem hit_clips_finite_and_faster:
  assumes std: "make_images pg prep eq attack order = Inr standard"
    and clip: "standard dir = Some clip"
    and hit: "make_hit_images pg' prep' from_dict dir' = Some hit"
  shows "fps hit = 20 \<and> loops hit = Some 10
       \<and> (\<forall>n. is_done ((loop_completed ^^ n) hit) \<longleftrightarrow> 10 \<le> n)
       \<and> (\<forall>n m. is_done ((loop_completed ^^ m) (reset ((loop_completed ^^ n) hit)))
                  \<longleftrightarrow> 10 \<le> m)
       \<and> fps clip = 7 \<and> loops clip = None
       \<and> (\<forall>n. \<not> is_done ((loop_completed ^^ n) clip))
       \<and> fps clip < fps hit"
proof -
  from hit obtain fs where h: "hit = Anim fs HIT_ANIMATION_FPS (Some 10)"
    by (auto simp add: make_hit_images_def split: option.splits)
  from std clip obtain f0 f1 where c: "clip = Anim [f0, f1] STANDARD_ANIMATION_FPS None"
    using make_images_clips by blast
  have h1: "fps hit = 20" and h2: "loops hit = Some 10"
    and h3: "loop_count hit = 0" and h4: "\<not> is_done hit"
    using h by (simp_all add: Anim_def HIT_ANIMATION_FPS_def)
  have c1: "fps clip = 7" and c2: "loops clip = None" and c3: "\<not> is_done clip"
    using c by (simp_all add: Anim_def STANDARD_ANIMATION_FPS_def)
  have d: "is_done ((loop_completed ^^ n) hit) \<longleftrightarrow> 10 \<le> n" for n
    using loop_completed_finite [OF h2 _ h3 h4, of n] by simp
  have r: "is_done ((loop_completed ^^ m) (reset ((loop_completed ^^ n) hit))) \<longleftrightarrow> 10 \<le> m"
    for n m
  proof -
    have "loops (reset ((loop_completed ^^ n) hit)) = Some 10"
      using loop_completed_keeps [of n hit] h2 by (simp add: reset_fields)
    from loop_completed_finite [OF this _ reset_fields(2) reset_fields(3), of m]
    show ?thesis by simp
  qed
  have u: "\<not> is_done ((loop_completed ^^ n) clip)" for n
    using loop_completed_unbounded [OF c2 c3, of n] by simp
  from h1 h2 d r c1 c2 u show ?thesis by simp
qed

lemma example_sprites_simps:
  "example_sprites Head = None"
  "example_sprites Body = Some (paint_item example_body)"
  "example_sprites Weapon = Some (paint_item example_pitchfork)"
  "example_sprites Armleg = Some (paint_item example_armleg)"
  "example_sprites Shield = Some (paint_item example_shield)"
  by (simp_all add: example_sprites_def example_equipped_def)

lemma example_make_images:
  "\<exists>standard clip. make_images example_pygame example_prepare example_sprites False DRAW_ORDER
       = Inr standard \<and> standard Right = Some clip"
  by (simp add: make_images_def example_pygame_def example_prepare_def example_sprites_simps
      paint_item_def get_part_image_def lookup_def subscript_def swatch_def
      example_armleg_def example_body_def example_shield_def example_pitchfork_def)

theorem hit_clips_finite_and_faster_witness:
  "\<exists>standard clip hit.
      make_images example_pygame example_prepare example_sprites False DRAW_ORDER = Inr standard
    \<and> standard Right = Some clip
    \<and> make_hit_images example_pygame example_prepare standard Right = Some hit
    \<and> fps clip = 7 \<and> loops clip = None \<and> fps hit = 20 \<and> loops hit = Some 10
    \<and> \<not> is_done ((loop_completed ^^ 9) hit) \<and> is_done ((loop_completed ^^ 10) hit)
    \<and> is_done ((loop_completed ^^ 11) hit)
    \<and> \<not> is_done (reset ((loop_completed ^^ 11) hit))
    \<and> \<not> is_done ((loop_completed ^^ 11) clip)"
proof -
  from example_make_images obtain standard clip where
    s: "make_images example_pygame example_prepare example_sprites False DRAW_ORDER
          = Inr standard"
    and c: "standard Right = Some clip"
    by blast
  from c obtain hit where
    h: "make_hit_images example_pygame example_prepare standard Right = Some hit"
    by (simp add: make_hit_images_def)
  note t = hit_clips_finite_and_faster [OF s c h]
  from t have a: "fps clip = 7 \<and> loops clip = None \<and> fps hit = 20 \<and> loops hit = Some 10"
    by simp
  from t have b: "is_done ((loop_completed ^^ n) hit) \<longleftrightarrow> 10 \<le> n" for n
    by simp
  from t have r: "is_done ((loop_completed ^^ m) (reset ((loop_completed ^^ n) hit)))
      \<longleftrightarrow> 10 \<le> m" for n m
    by simp
  from t have u: "\<not> is_done ((loop_completed ^^ n) clip)" for n
    by simp
  have "\<not> is_done (reset ((loop_completed ^^ 11) hit))"
    using r [of 0 11] by simp
  with s c h a b [of 9] b [of 10] b [of 11] u [of 11] show ?thesis
    by (intro exI [of _ standard] exI [of _ clip] exI [of _ hit]) simp
qed

end
